theory Spec2Isabelle
  imports Main "HOL-Library.Word"
begin

section \<open>The Stream controller (pkg/stream/controller.go)\<close>

text \<open>
  A shallow embedding of the Stream controller. Objects are records, the
  \<open>interface{}\<close> values handed to the informer callbacks are a datatype, and every
  effect of the controller is a field of an explicit \<open>world\<close> that the functions take
  and return: the operations invoked on the work queue, the events given to the
  recorder, the errors given to \<open>runtime.HandleError\<close>, and the remote store behind
  the two clientsets together with the list of calls made on it. The glog lines have
  no counterpart.
\<close>

subsection \<open>Strings built by formatting, and errors\<close>

text \<open>
  \<open>fmt.Sprintf\<close> is kept symbolic: a formatted string is its format together with
  its arguments, so that no rule of the verbs \<open>%s\<close>, \<open>%q\<close> and \<open>%#v\<close> is assumed.
  Keys, names and namespaces are plain strings.
\<close>

datatype gostring = Lit string | Sprintf gostring "gostring list"

datatype StatusReason =
    StatusReasonNotFound
  | StatusReasonAlreadyExists
  | StatusReasonConflict
  | StatusReasonUnknown

text \<open>
  An \<open>error\<close> is either an API status error (k8s.io/apimachinery/pkg/api/errors)
  or the result of \<open>fmt.Errorf\<close>.
\<close>

datatype error = StatusError StatusReason gostring | Errorf gostring "gostring list"

fun Error :: "error \<Rightarrow> gostring" where
  "Error (StatusError r m) = m"
| "Error (Errorf f args) = Sprintf f args"

fun IsNotFound :: "error \<Rightarrow> bool" where
  "IsNotFound (StatusError r m) = (r = StatusReasonNotFound)"
| "IsNotFound (Errorf f args) = False"

subsection \<open>Objects\<close>

text \<open>
  \<open>metav1.OwnerReference\<close>; \<open>Controller\<close> and \<open>BlockOwnerDeletion\<close> are
  pointers to bool, \<open>None\<close> is the nil pointer. The fields \<open>Name\<close> and \<open>UID\<close>
  are \<open>refName\<close> and \<open>refUID\<close> here, apart from those of \<open>ObjectMeta\<close>.
\<close>

record OwnerReference =
  APIVersion :: string
  Kind :: string
  refName :: string
  refUID :: string
  Controller :: "bool option"
  BlockOwnerDeletion :: "bool option"

record ObjectMeta =
  Name :: string
  Namespace :: string
  UID :: string
  ResourceVersion :: string
  Labels :: "string \<rightharpoonup> string"
  OwnerReferences :: "OwnerReference list"

text \<open>
  \<open>spikev1alpha1.Stream\<close> embeds \<open>ObjectMeta\<close> and adds \<open>Spec\<close> and
  \<open>Status\<close>. Their types \<open>StreamSpec\<close> and \<open>StreamStatus\<close> are declared in
  pkg/apis/spike.local/v1alpha1, and the controller never looks inside them: they
  are the type parameters \<open>'sp\<close> and \<open>'st\<close>.
\<close>

record ('sp, 'st) Stream = ObjectMeta +
  Spec :: 'sp
  Status :: 'st

record ServicePort =
  portName :: string
  Protocol :: string
  Port :: "32 word"
  NodePort :: "32 word"

record ServiceSpec =
  Ports :: "ServicePort list"
  Selector :: "string \<rightharpoonup> string"
  ClusterIP :: string
  Type :: string

text \<open>\<open>corev1.Service\<close>: \<open>ObjectMeta\<close> and the field \<open>Spec\<close>, here \<open>SvcSpec\<close>.\<close>

record Service = ObjectMeta +
  SvcSpec :: ServiceSpec

text \<open>
  The \<open>interface{}\<close> values of the informer callbacks: a Stream, a Service, the
  tombstone \<open>cache.DeletedFinalStateUnknown{Key, Obj}\<close>, a \<open>cache.ExplicitKey\<close>,
  or a value of any other type.
\<close>

datatype ('sp, 'st) obj =
    StreamObj "('sp, 'st) Stream"
  | ServiceObj Service
  | DeletedFinalStateUnknown string "('sp, 'st) obj"
  | ExplicitKey string
  | OtherObj

text \<open>
  The type assertion \<open>obj.(metav1.Object)\<close>: Streams and Services have object
  metadata, nothing else has.
\<close>

fun asObject :: "('sp, 'st) obj \<Rightarrow> ObjectMeta option" where
  "asObject (StreamObj s) =
     Some \<lparr>Name = Name s, Namespace = Namespace s, UID = UID s,
           ResourceVersion = ResourceVersion s, Labels = Labels s,
           OwnerReferences = OwnerReferences s\<rparr>"
| "asObject (ServiceObj s) =
     Some \<lparr>Name = Name s, Namespace = Namespace s, UID = UID s,
           ResourceVersion = ResourceVersion s, Labels = Labels s,
           OwnerReferences = OwnerReferences s\<rparr>"
| "asObject (DeletedFinalStateUnknown k v) = None"
| "asObject (ExplicitKey k) = None"
| "asObject OtherObj = None"

subsection \<open>Functions of apimachinery and client-go that the controller calls\<close>

text \<open>
  \<open>metav1.GetControllerOf\<close>: the first owner reference whose \<open>Controller\<close>
  pointer is set and true.
\<close>

definition GetControllerOf :: "'a ObjectMeta_scheme \<Rightarrow> OwnerReference option" where
  "GetControllerOf controllee =
     find (\<lambda>ref. Controller ref = Some True) (OwnerReferences controllee)"

text \<open>\<open>metav1.IsControlledBy\<close>: the controller reference carries the owner's UID.\<close>

definition IsControlledBy :: "'a ObjectMeta_scheme \<Rightarrow> 'b ObjectMeta_scheme \<Rightarrow> bool" where
  "IsControlledBy object owner =
     (case GetControllerOf object of
        None \<Rightarrow> False
      | Some ref \<Rightarrow> refUID ref = UID owner)"

record GroupVersion =
  Group :: string
  Version :: string

record GroupVersionKind =
  gvkGroup :: string
  gvkVersion :: string
  gvkKind :: string

text \<open>\<open>GroupVersion.String\<close>: the version alone when the group is empty.\<close>

definition GroupVersion_String :: "GroupVersion \<Rightarrow> string" where
  "GroupVersion_String gv =
     (if Group gv = [] then Version gv else Group gv @ ''/'' @ Version gv)"

text \<open>\<open>metav1.NewControllerRef\<close>.\<close>

definition NewControllerRef :: "'a ObjectMeta_scheme \<Rightarrow> GroupVersionKind \<Rightarrow> OwnerReference" where
  "NewControllerRef owner gvk =
     \<lparr>APIVersion = GroupVersion_String \<lparr>Group = gvkGroup gvk, Version = gvkVersion gvk\<rparr>,
      Kind = gvkKind gvk,
      refName = Name owner,
      refUID = UID owner,
      Controller = Some True,
      BlockOwnerDeletion = Some True\<rparr>"

text \<open>
  \<open>cache.MetaNamespaceKeyFunc\<close>: an explicit key is itself; an object with
  metadata has the key \<open>namespace/name\<close>, or \<open>name\<close> alone when the namespace is
  empty; anything else has no metadata.
\<close>

definition MetaNamespaceKeyFunc :: "('sp, 'st) obj \<Rightarrow> error + string" where
  "MetaNamespaceKeyFunc v =
     (case v of
        ExplicitKey key \<Rightarrow> Inr key
      | _ \<Rightarrow>
        (case asObject v of
           None \<Rightarrow> Inl (Errorf (Lit ''object has no meta: %v'') [Lit ''object does not implement the Object interfaces''])
         | Some m \<Rightarrow>
             if 0 < length (Namespace m) then Inr (Namespace m @ ''/'' @ Name m)
             else Inr (Name m)))"

text \<open>\<open>strings.Split(key, "/")\<close>: the pieces between the slashes, at least one.\<close>

fun Split_slash :: "string \<Rightarrow> string list" where
  "Split_slash [] = [[]]"
| "Split_slash (c # cs) =
     (if c = CHR ''/'' then [] # Split_slash cs
      else (case Split_slash cs of
              [] \<Rightarrow> [[c]]
            | p # ps \<Rightarrow> (c # p) # ps))"

text \<open>
  \<open>cache.SplitMetaNamespaceKey\<close>: one piece is a name without namespace, two pieces
  are namespace and name, more is an error.
\<close>

definition SplitMetaNamespaceKey :: "string \<Rightarrow> error + (string \<times> string)" where
  "SplitMetaNamespaceKey key =
     (case Split_slash key of
        [name] \<Rightarrow> Inr ([], name)
      | [namespace, name] \<Rightarrow> Inr (namespace, name)
      | _ \<Rightarrow> Inl (Errorf (Lit ''unexpected key format: %q'') [Lit key]))"

subsection \<open>Declarations of the repository that the controller imports\<close>

text \<open>
  Modelled from the spec: \<open>StreamServiceName\<close> (package pkg/names) and
  \<open>SchemeGroupVersion\<close> (package pkg/apis/spike.local/v1alpha1) are not part of the
  controller's file. The spec asks of the first only that it is a fixed, pure
  function of the Stream's name, so both are parameters of the model, and every
  theorem holds for any choice of them.
\<close>

record Pkg =
  StreamServiceName :: "string \<Rightarrow> string"
  SchemeGroupVersion :: GroupVersion

text \<open>
  Modelled from the spec: \<open>Stream.DeepCopy\<close> is generated code outside the
  controller's file. A deep copy has the fields of the original and shares no
  memory with it; values of HOL have no identity, so the copy is the value itself.
\<close>

definition DeepCopy :: "('sp, 'st) Stream \<Rightarrow> ('sp, 'st) Stream" where
  "DeepCopy stream = stream"

subsection \<open>The world the controller acts on\<close>

text \<open>Items of the work queue are \<open>interface{}\<close>: a string key, or something else
  (given by its \<open>%#v\<close> rendering).\<close>

datatype qitem = KeyItem string | OtherItem string

text \<open>An operation invoked on the rate limiting work queue.\<close>

datatype qop = QAdd qitem | QAddRateLimited qitem | QForget qitem | QDone qitem

text \<open>A call made through one of the two clientsets, with its namespace.\<close>

datatype ('sp, 'st) action =
    Services_Create string Service
  | Streams_Update string "('sp, 'st) Stream"

datatype EventType = EventTypeNormal | EventTypeWarning

record ('sp, 'st) event =
  involved :: "('sp, 'st) Stream"
  eventtype :: EventType
  reason :: string
  message :: gostring

record ('sp, 'st, 'r) world =
  remote :: 'r
  actions :: "('sp, 'st) action list"
  events :: "('sp, 'st) event list"
  handledErrors :: "error list"
  workqueue :: "qop list"

text \<open>
  The \<open>Controller\<close> struct. The two clientsets are the one call the controller
  makes on each: \<open>CoreV1().Services(ns).Create\<close> and
  \<open>SpikeV1alpha1().Streams(ns).Update\<close>, as functions of the remote store
  \<open>'r\<close> returning the object or an error. A lister is \<open>Streams(ns).Get(name)\<close>
  and \<open>Services(ns).Get(name)\<close> on the local cache. The work queue and the recorder
  are in the \<open>world\<close>.
\<close>

record ('sp, 'st, 'r) Controller =
  kubeclientset :: "string \<Rightarrow> Service \<Rightarrow> 'r \<Rightarrow> (error + Service) \<times> 'r"
  streamclientset :: "string \<Rightarrow> ('sp, 'st) Stream \<Rightarrow> 'r \<Rightarrow> (error + ('sp, 'st) Stream) \<times> 'r"
  servicesLister :: "string \<Rightarrow> string \<Rightarrow> error + Service"
  streamsLister :: "string \<Rightarrow> string \<Rightarrow> error + ('sp, 'st) Stream"

definition HandleError :: "error \<Rightarrow> ('sp, 'st, 'r) world \<Rightarrow> ('sp, 'st, 'r) world" where
  "HandleError err w = w\<lparr>handledErrors := handledErrors w @ [err]\<rparr>"

definition Event ::
  "('sp, 'st) Stream \<Rightarrow> EventType \<Rightarrow> string \<Rightarrow> gostring \<Rightarrow> ('sp, 'st, 'r) world \<Rightarrow> ('sp, 'st, 'r) world" where
  "Event object t r msg w =
     w\<lparr>events := events w @ [\<lparr>involved = object, eventtype = t, reason = r, message = msg\<rparr>]\<rparr>"

definition Add :: "qitem \<Rightarrow> ('sp, 'st, 'r) world \<Rightarrow> ('sp, 'st, 'r) world" where
  "Add item w = w\<lparr>workqueue := workqueue w @ [QAdd item]\<rparr>"

definition AddRateLimited :: "qitem \<Rightarrow> ('sp, 'st, 'r) world \<Rightarrow> ('sp, 'st, 'r) world" where
  "AddRateLimited item w = w\<lparr>workqueue := workqueue w @ [QAddRateLimited item]\<rparr>"

definition Forget :: "qitem \<Rightarrow> ('sp, 'st, 'r) world \<Rightarrow> ('sp, 'st, 'r) world" where
  "Forget item w = w\<lparr>workqueue := workqueue w @ [QForget item]\<rparr>"

definition Done :: "qitem \<Rightarrow> ('sp, 'st, 'r) world \<Rightarrow> ('sp, 'st, 'r) world" where
  "Done item w = w\<lparr>workqueue := workqueue w @ [QDone item]\<rparr>"

text \<open>The two remote calls: the call is recorded and the store answers.\<close>

definition Create ::
  "('sp, 'st, 'r) Controller \<Rightarrow> string \<Rightarrow> Service \<Rightarrow> ('sp, 'st, 'r) world
     \<Rightarrow> (error + Service) \<times> ('sp, 'st, 'r) world" where
  "Create c ns service w =
     (case kubeclientset c ns service (remote w) of
        (res, r) \<Rightarrow> (res, w\<lparr>remote := r, actions := actions w @ [Services_Create ns service]\<rparr>))"

definition Update ::
  "('sp, 'st, 'r) Controller \<Rightarrow> string \<Rightarrow> ('sp, 'st) Stream \<Rightarrow> ('sp, 'st, 'r) world
     \<Rightarrow> (error + ('sp, 'st) Stream) \<times> ('sp, 'st, 'r) world" where
  "Update c ns stream w =
     (case streamclientset c ns stream (remote w) of
        (res, r) \<Rightarrow> (res, w\<lparr>remote := r, actions := actions w @ [Streams_Update ns stream]\<rparr>))"

subsection \<open>Constants\<close>

definition SuccessSynced :: string where
  "SuccessSynced = ''Synced''"

definition ErrResourceExists :: string where
  "ErrResourceExists = ''ErrResourceExists''"

definition MessageResourceExists :: string where
  "MessageResourceExists = ''Resource %q already exists and is not managed by Stream''"

definition MessageResourceSynced :: string where
  "MessageResourceSynced = ''Stream synced successfully''"

subsection \<open>newService\<close>

definition newService :: "Pkg \<Rightarrow> ('sp, 'st) Stream \<Rightarrow> Service" where
  "newService p stream =
     \<lparr>Name = StreamServiceName p (Name stream),
      Namespace = Namespace stream,
      UID = [],
      ResourceVersion = [],
      Labels = [''stream'' \<mapsto> Name stream],
      OwnerReferences =
        [NewControllerRef stream
           \<lparr>gvkGroup = Group (SchemeGroupVersion p),
            gvkVersion = Version (SchemeGroupVersion p),
            gvkKind = ''Stream''\<rparr>],
      SvcSpec =
        \<lparr>Ports = [\<lparr>portName = [], Protocol = [], Port = 80, NodePort = 0\<rparr>],
         Selector = Map.empty,
         ClusterIP = [],
         Type = ''NodePort''\<rparr>\<rparr>"

subsection \<open>The sync algorithm\<close>

definition updateStreamStatus ::
  "('sp, 'st, 'r) Controller \<Rightarrow> ('sp, 'st) Stream \<Rightarrow> Service \<Rightarrow> ('sp, 'st, 'r) world
     \<Rightarrow> error option \<times> ('sp, 'st, 'r) world" where
  "updateStreamStatus c stream service w =
     (let streamCopy = DeepCopy stream in
      case Update c (Namespace stream) streamCopy w of
        (Inl err, w') \<Rightarrow> (Some err, w')
      | (Inr u, w') \<Rightarrow> (None, w'))"

text \<open>
  \<open>syncHandler\<close>; the result \<open>None\<close> is the nil error. The test
  \<open>!metav1.IsControlledBy(service, stream)\<close> is the \<open>else\<close> branch of the
  conditional.
\<close>

definition syncHandler ::
  "Pkg \<Rightarrow> ('sp, 'st, 'r) Controller \<Rightarrow> string \<Rightarrow> ('sp, 'st, 'r) world
     \<Rightarrow> error option \<times> ('sp, 'st, 'r) world" where
  "syncHandler p c key w =
     (case SplitMetaNamespaceKey key of
        Inl err \<Rightarrow>
          (None, HandleError (Errorf (Lit ''invalid resource key: %s'') [Lit key]) w)
      | Inr (namespace, name) \<Rightarrow>
          (case streamsLister c namespace name of
             Inl err \<Rightarrow>
               if IsNotFound err
               then (None, HandleError
                       (Errorf (Lit ''stream '%s' in work queue no longer exists'') [Lit key]) w)
               else (Some err, w)
           | Inr stream \<Rightarrow>
               (let serviceName = StreamServiceName p name in
                case (case servicesLister c (Namespace stream) serviceName of
                        Inl err \<Rightarrow>
                          if IsNotFound err
                          then Create c (Namespace stream) (newService p stream) w
                          else (Inl err, w)
                      | Inr service \<Rightarrow> (Inr service, w)) of
                  (Inl err, w1) \<Rightarrow> (Some err, w1)
                | (Inr service, w1) \<Rightarrow>
                    if IsControlledBy service stream
                    then (case updateStreamStatus c stream service w1 of
                            (Some err, w2) \<Rightarrow> (Some err, w2)
                          | (None, w2) \<Rightarrow>
                              (None, Event stream EventTypeNormal SuccessSynced
                                       (Lit MessageResourceSynced) w2))
                    else (let msg = Sprintf (Lit MessageResourceExists) [Lit (Name service)] in
                          (Some (Errorf msg []),
                           Event stream EventTypeWarning ErrResourceExists msg w1)))))"

subsection \<open>The dispatch loop\<close>

text \<open>
  \<open>processNextWorkItem\<close>. The pair \<open>(obj, shutdown)\<close> is what
  \<open>c.workqueue.Get()\<close> returned; the deferred \<open>Done\<close> is the last operation of the
  inner function, and the result says whether the worker goes on.
\<close>

definition processNextWorkItem ::
  "Pkg \<Rightarrow> ('sp, 'st, 'r) Controller \<Rightarrow> qitem \<times> bool \<Rightarrow> ('sp, 'st, 'r) world
     \<Rightarrow> bool \<times> ('sp, 'st, 'r) world" where
  "processNextWorkItem p c got w =
     (case got of (item, shutdown) \<Rightarrow>
        if shutdown then (False, w)
        else
          (case (case item of
                   OtherItem v \<Rightarrow>
                     (None, Done item
                        (HandleError
                           (Errorf (Lit ''expected string in workqueue but got %#v'') [Lit v])
                           (Forget item w)))
                 | KeyItem key \<Rightarrow>
                     (case syncHandler p c key w of
                        (Some err, w') \<Rightarrow>
                          (Some (Errorf (Lit ''error syncing '%s': %s'') [Lit key, Error err]),
                           Done item w')
                      | (None, w') \<Rightarrow> (None, Done item (Forget item w')))) of
             (Some err, w1) \<Rightarrow> (True, HandleError err w1)
           | (None, w1) \<Rightarrow> (True, w1)))"

text \<open>
  \<open>runWorker\<close> calls \<open>processNextWorkItem\<close> until it returns false. The list is
  what the successive calls of \<open>Get\<close> return to this worker; at its end the worker
  waits in \<open>Get\<close>.
\<close>

fun runWorker ::
  "Pkg \<Rightarrow> ('sp, 'st, 'r) Controller \<Rightarrow> (qitem \<times> bool) list \<Rightarrow> ('sp, 'st, 'r) world
     \<Rightarrow> ('sp, 'st, 'r) world" where
  "runWorker p c [] w = w"
| "runWorker p c (got # gots) w =
     (case processNextWorkItem p c got w of
        (True, w') \<Rightarrow> runWorker p c gots w'
      | (False, w') \<Rightarrow> w')"

subsection \<open>The event router\<close>

definition enqueueStream :: "('sp, 'st) obj \<Rightarrow> ('sp, 'st, 'r) world \<Rightarrow> ('sp, 'st, 'r) world" where
  "enqueueStream v w =
     (case MetaNamespaceKeyFunc v of
        Inl err \<Rightarrow> HandleError err w
      | Inr key \<Rightarrow> AddRateLimited (KeyItem key) w)"

text \<open>
  The part of \<open>handleObject\<close> after the object is decoded: the controller
  reference, its kind, the lookup of the owner, the enqueue of the owner.
\<close>

definition handleOwner ::
  "('sp, 'st, 'r) Controller \<Rightarrow> ObjectMeta \<Rightarrow> ('sp, 'st, 'r) world \<Rightarrow> ('sp, 'st, 'r) world" where
  "handleOwner c object w =
     (case GetControllerOf object of
        None \<Rightarrow> w
      | Some ownerRef \<Rightarrow>
          if Kind ownerRef = ''Stream''
          then (case streamsLister c (Namespace object) (refName ownerRef) of
                  Inl err \<Rightarrow> w
                | Inr stream \<Rightarrow> enqueueStream (StreamObj stream) w)
          else w)"

definition handleObject ::
  "('sp, 'st, 'r) Controller \<Rightarrow> ('sp, 'st) obj \<Rightarrow> ('sp, 'st, 'r) world \<Rightarrow> ('sp, 'st, 'r) world" where
  "handleObject c v w =
     (case asObject v of
        Some object \<Rightarrow> handleOwner c object w
      | None \<Rightarrow>
          (case v of
             DeletedFinalStateUnknown k tv \<Rightarrow>
               (case asObject tv of
                  Some object \<Rightarrow> handleOwner c object w
                | None \<Rightarrow>
                    HandleError
                      (Errorf (Lit ''error decoding object tombstone, invalid type'') []) w)
           | _ \<Rightarrow> HandleError (Errorf (Lit ''error decoding object, invalid type'') []) w))"

text \<open>
  The handlers that \<open>NewController\<close> registers. A notification is one call of a
  \<open>cache.ResourceEventHandlerFuncs\<close>; a missing function does nothing. The update
  function of the Service informer asserts that both objects are Services, and
  panics (\<open>None\<close>) when one is not.
\<close>

datatype ('sp, 'st) notification =
    OnAdd "('sp, 'st) obj"
  | OnUpdate "('sp, 'st) obj" "('sp, 'st) obj"
  | OnDelete "('sp, 'st) obj"

fun streamInformer_handler ::
  "('sp, 'st) notification \<Rightarrow> ('sp, 'st, 'r) world \<Rightarrow> ('sp, 'st, 'r) world option" where
  "streamInformer_handler (OnAdd v) w = Some (enqueueStream v w)"
| "streamInformer_handler (OnUpdate old new) w = Some (enqueueStream new w)"
| "streamInformer_handler (OnDelete v) w = Some w"

fun serviceInformer_handler ::
  "('sp, 'st, 'r) Controller \<Rightarrow> ('sp, 'st) notification \<Rightarrow> ('sp, 'st, 'r) world
     \<Rightarrow> ('sp, 'st, 'r) world option" where
  "serviceInformer_handler c (OnAdd v) w = Some (handleObject c v w)"
| "serviceInformer_handler c (OnUpdate old new) w =
     (case new of
        ServiceObj newSvc \<Rightarrow>
          (case old of
             ServiceObj oldSvc \<Rightarrow>
               if ResourceVersion newSvc = ResourceVersion oldSvc then Some w
               else Some (handleObject c new w)
           | _ \<Rightarrow> None)
      | _ \<Rightarrow> None)"
| "serviceInformer_handler c (OnDelete v) w = Some (handleObject c v w)"

subsection \<open>The store of the fake clientset, and listers over a cache\<close>

text \<open>
  \<open>NewSimpleClientset\<close> answers from an object tracker that, in the words of its
  comment, processes creates and updates as-is, without applying any validations or
  defaults. The tracker belongs to k8s.io/client-go/testing; this is what it does for
  the two calls of the controller. Objects are stored under namespace and name; a
  create of a stored name and an update of a missing one are refused, and an update
  replaces the whole stored object by the one sent.
\<close>

record ('sp, 'st) tracker =
  streams :: "string \<times> string \<rightharpoonup> ('sp, 'st) Stream"
  services :: "string \<times> string \<rightharpoonup> Service"

definition tracker_Create ::
  "string \<Rightarrow> Service \<Rightarrow> ('sp, 'st) tracker \<Rightarrow> (error + Service) \<times> ('sp, 'st) tracker" where
  "tracker_Create ns service t =
     (case services t (ns, Name service) of
        Some existing \<Rightarrow>
          (Inl (StatusError StatusReasonAlreadyExists
                  (Sprintf (Lit ''%s %q already exists'') [Lit ''services'', Lit (Name service)])), t)
      | None \<Rightarrow> (Inr service, t\<lparr>services := (services t)((ns, Name service) \<mapsto> service)\<rparr>))"

definition tracker_Update ::
  "string \<Rightarrow> ('sp, 'st) Stream \<Rightarrow> ('sp, 'st) tracker
     \<Rightarrow> (error + ('sp, 'st) Stream) \<times> ('sp, 'st) tracker" where
  "tracker_Update ns stream t =
     (case streams t (ns, Name stream) of
        None \<Rightarrow>
          (Inl (StatusError StatusReasonNotFound
                  (Sprintf (Lit ''%s %q not found'') [Lit ''streams'', Lit (Name stream)])), t)
      | Some existing \<Rightarrow> (Inr stream, t\<lparr>streams := (streams t)((ns, Name stream) \<mapsto> stream)\<rparr>))"

text \<open>
  A lister over the objects of a cache: the object of that namespace and name, or a
  not-found status error.
\<close>

definition lister_Get ::
  "string \<Rightarrow> 'a ObjectMeta_scheme list \<Rightarrow> string \<Rightarrow> string \<Rightarrow> error + 'a ObjectMeta_scheme" where
  "lister_Get resource indexer ns name =
     (case find (\<lambda>x. Namespace x = ns \<and> Name x = name) indexer of
        None \<Rightarrow>
          Inl (StatusError StatusReasonNotFound
                 (Sprintf (Lit ''%s %q not found'') [Lit resource, Lit name]))
      | Some x \<Rightarrow> Inr x)"

text \<open>A controller on the fake clientset, with the two caches given as lists.\<close>

definition fakeController ::
  "('sp, 'st) Stream list \<Rightarrow> Service list \<Rightarrow> ('sp, 'st, ('sp, 'st) tracker) Controller" where
  "fakeController streamCache serviceCache =
     \<lparr>kubeclientset = tracker_Create,
      streamclientset = tracker_Update,
      servicesLister = lister_Get ''service'' serviceCache,
      streamsLister = lister_Get ''stream'' streamCache\<rparr>"

subsection \<open>Test objects\<close>

text \<open>
  The objects of the examples: a naming rule, the Stream \<open>ns/s1\<close>, its Service,
  and a Service of the same name that nobody owns.
\<close>

definition testPkg :: Pkg where
  "testPkg =
     \<lparr>StreamServiceName = (\<lambda>name. name @ ''-stream''),
      SchemeGroupVersion = \<lparr>Group = ''spike.local'', Version = ''v1alpha1''\<rparr>\<rparr>"

definition testStream :: "(string, string) Stream" where
  "testStream =
     \<lparr>Name = ''s1'', Namespace = ''ns'', UID = ''uid-s1'', ResourceVersion = ''7'',
      Labels = Map.empty, OwnerReferences = [], Spec = ''v1'', Status = ''observed''\<rparr>"

definition foreignService :: Service where
  "foreignService =
     \<lparr>Name = ''s1-stream'', Namespace = ''ns'', UID = ''uid-x'', ResourceVersion = ''3'',
      Labels = Map.empty, OwnerReferences = [],
      SvcSpec = \<lparr>Ports = [], Selector = Map.empty, ClusterIP = [], Type = ''ClusterIP''\<rparr>\<rparr>"

definition emptyTracker :: "(string, string) tracker" where
  "emptyTracker = \<lparr>streams = Map.empty, services = Map.empty\<rparr>"

definition world0 :: "(string, string) tracker \<Rightarrow> (string, string, (string, string) tracker) world" where
  "world0 t = \<lparr>remote = t, actions = [], events = [], handledErrors = [], workqueue = []\<rparr>"

definition ownedService :: Service where
  "ownedService = (newService testPkg testStream)\<lparr>UID := ''uid-svc'', ResourceVersion := ''12''\<rparr>"

text \<open>
  Three states of the store: the Stream's spec was edited after the cache read it;
  the Service name is taken remotely by a Service the cache has not seen; store and
  cache agree on the Stream except for its status.
\<close>

definition editedTracker :: "(string, string) tracker" where
  "editedTracker =
     \<lparr>streams = [(''ns'', ''s1'') \<mapsto> testStream\<lparr>ResourceVersion := ''8'', Spec := ''v2''\<rparr>],
      services = [(''ns'', ''s1-stream'') \<mapsto> newService testPkg testStream]\<rparr>"

definition staleTracker :: "(string, string) tracker" where
  "staleTracker =
     \<lparr>streams = [(''ns'', ''s1'') \<mapsto> testStream],
      services = [(''ns'', ''s1-stream'') \<mapsto> foreignService]\<rparr>"

definition syncedTracker :: "(string, string) tracker" where
  "syncedTracker =
     \<lparr>streams = [(''ns'', ''s1'') \<mapsto> testStream\<lparr>Status := ''pending''\<rparr>],
      services = [(''ns'', ''s1-stream'') \<mapsto> ownedService]\<rparr>"

section \<open>Properties\<close>

subsection \<open>The remote calls and the sync algorithm, unfolded\<close>

lemma Create_eq:
  "Create c ns service w =
     (fst (kubeclientset c ns service (remote w)),
      w\<lparr>remote := snd (kubeclientset c ns service (remote w)),
        actions := actions w @ [Services_Create ns service]\<rparr>)"
  by (simp add: Create_def split: prod.splits)

lemma Update_eq:
  "Update c ns stream w =
     (fst (streamclientset c ns stream (remote w)),
      w\<lparr>remote := snd (streamclientset c ns stream (remote w)),
        actions := actions w @ [Streams_Update ns stream]\<rparr>)"
  by (simp add: Update_def split: prod.splits)

lemma updateStreamStatus_eq:
  "updateStreamStatus c stream service w =
     ((case fst (streamclientset c (Namespace stream) stream (remote w)) of
         Inl err \<Rightarrow> Some err | Inr u \<Rightarrow> None),
      w\<lparr>remote := snd (streamclientset c (Namespace stream) stream (remote w)),
        actions := actions w @ [Streams_Update (Namespace stream) stream]\<rparr>)"
  by (simp add: updateStreamStatus_def Update_eq DeepCopy_def split: sum.splits)

lemmas sync_unfold =
  syncHandler_def Create_eq updateStreamStatus_eq Event_def HandleError_def Let_def

lemmas test_defs =
  fakeController_def lister_Get_def testStream_def testPkg_def world0_def
  foreignService_def emptyTracker_def

text \<open>The sync algorithm never invokes the work queue.\<close>

lemma syncHandler_workqueue:
  "workqueue (snd (syncHandler p c key w)) = workqueue w"
  by (simp add: sync_unfold split: sum.splits prod.splits option.splits)

lemma newService_controlled: "IsControlledBy (newService p stream) stream"
  by (simp add: IsControlledBy_def GetControllerOf_def newService_def NewControllerRef_def)

subsection \<open>Facts about the test objects\<close>

lemma SplitMetaNamespaceKey_test: "SplitMetaNamespaceKey ''ns/s1'' = Inr (''ns'', ''s1'')"
  by (simp add: SplitMetaNamespaceKey_def)

lemma controlled_test: "IsControlledBy ownedService testStream"
  by (simp add: ownedService_def newService_def NewControllerRef_def IsControlledBy_def
      GetControllerOf_def testStream_def)

lemma foreign_test: "\<not> IsControlledBy foreignService testStream"
  by (simp add: foreignService_def IsControlledBy_def GetControllerOf_def)

lemma streamsLister_test:
  "streamsLister (fakeController [testStream] svcs) ''ns'' ''s1'' = Inr testStream"
  by (simp add: fakeController_def lister_Get_def testStream_def)

lemma servicesLister_owned:
  "servicesLister (fakeController strs [ownedService]) (Namespace testStream)
     (StreamServiceName testPkg ''s1'') = Inr ownedService"
  by (simp add: fakeController_def lister_Get_def testStream_def testPkg_def ownedService_def
      newService_def)

lemma servicesLister_foreign:
  "servicesLister (fakeController strs [foreignService]) (Namespace testStream)
     (StreamServiceName testPkg ''s1'') = Inr foreignService"
  by (simp add: fakeController_def lister_Get_def testStream_def testPkg_def foreignService_def)

lemma servicesLister_empty:
  "servicesLister (fakeController strs []) (Namespace testStream)
     (StreamServiceName testPkg ''s1'') =
     Inl (StatusError StatusReasonNotFound
            (Sprintf (Lit ''%s %q not found'') [Lit ''service'', Lit ''s1-stream'']))"
  by (simp add: fakeController_def lister_Get_def testStream_def testPkg_def)

lemma create_refused_test:
  "kubeclientset (fakeController strs svcs) (Namespace testStream) (newService testPkg testStream)
     (remote (world0 staleTracker)) =
     (Inl (StatusError StatusReasonAlreadyExists
             (Sprintf (Lit ''%s %q already exists'') [Lit ''services'', Lit ''s1-stream''])),
      staleTracker)"
  by (simp add: fakeController_def tracker_Create_def world0_def staleTracker_def testStream_def
      newService_def testPkg_def)

subsection \<open>The dispatch loop\<close>

text \<open>
  Whenever the sync of a key fails, \<open>processNextWorkItem\<close> tells the worker to go
  on and invokes exactly one operation on the work queue, \<open>Done\<close>: neither
  \<open>Forget\<close> nor \<open>AddRateLimited\<close>.
\<close>

lemma processNextWorkItem_sync_failure:
  assumes "fst (syncHandler p c key w) = Some err"
  shows "fst (processNextWorkItem p c (KeyItem key, False) w) = True
         \<and> workqueue (snd (processNextWorkItem p c (KeyItem key, False) w)) =
             workqueue w @ [QDone (KeyItem key)]"
proof -
  obtain w' where s: "syncHandler p c key w = (Some err, w')"
    using assms by (cases "syncHandler p c key w") simp
  have "workqueue w' = workqueue w"
    using syncHandler_workqueue [of p c key w] s by simp
  then show ?thesis
    using s by (simp add: processNextWorkItem_def Done_def HandleError_def)
qed

text \<open>
  C1. A dequeued key whose sync fails is to be left without \<open>Forget\<close>, added
  again with \<open>AddRateLimited\<close>, and the worker is to go on. The key \<open>ns/s1\<close>
  names a Stream whose Service name is taken by a Service nobody owns, so its sync
  fails with the collision error. The worker goes on and \<open>Forget\<close> is not called,
  but the only operation invoked on the work queue is \<open>Done\<close>: the key is not
  added again. A worker that next gets the key of a vanished Stream and then the
  shutdown signal invokes nothing for \<open>ns/s1\<close> besides that \<open>Done\<close>.
\<close>

theorem processNextWorkItem_failed_sync_not_requeued:
  "fst (syncHandler testPkg (fakeController [testStream] [foreignService]) ''ns/s1''
          (world0 emptyTracker))
     = Some (Errorf (Sprintf (Lit MessageResourceExists) [Lit ''s1-stream'']) [])
   \<and> fst (processNextWorkItem testPkg (fakeController [testStream] [foreignService])
            (KeyItem ''ns/s1'', False) (world0 emptyTracker)) = True
   \<and> workqueue (snd (processNextWorkItem testPkg (fakeController [testStream] [foreignService])
            (KeyItem ''ns/s1'', False) (world0 emptyTracker))) = [QDone (KeyItem ''ns/s1'')]
   \<and> QAddRateLimited (KeyItem ''ns/s1'')
        \<notin> set (workqueue (snd (processNextWorkItem testPkg
              (fakeController [testStream] [foreignService])
              (KeyItem ''ns/s1'', False) (world0 emptyTracker))))
   \<and> workqueue (runWorker testPkg (fakeController [testStream] [foreignService])
        [(KeyItem ''ns/s1'', False), (KeyItem ''ns/gone'', False), (KeyItem ''ns/s1'', True)]
        (world0 emptyTracker))
       = [QDone (KeyItem ''ns/s1''), QForget (KeyItem ''ns/gone''), QDone (KeyItem ''ns/gone'')]"
  by (simp add: processNextWorkItem_def Done_def Forget_def sync_unfold SplitMetaNamespaceKey_def
      test_defs IsControlledBy_def GetControllerOf_def)

subsection \<open>The sync algorithm\<close>

text \<open>
  C5. When the key splits into a namespace and a name and the Stream lister answers
  not-found, \<open>syncHandler\<close> returns the nil error; it reports that the Stream no
  longer exists and does nothing else: no remote call, no change of the remote
  store, no event.
\<close>

theorem syncHandler_stream_not_found:
  assumes "SplitMetaNamespaceKey key = Inr (namespace, name)"
    and "streamsLister c namespace name = Inl err"
    and "IsNotFound err"
  shows "syncHandler p c key w =
           (None, w\<lparr>handledErrors := handledErrors w @
              [Errorf (Lit ''stream '%s' in work queue no longer exists'') [Lit key]]\<rparr>)
         \<and> fst (syncHandler p c key w) = None
         \<and> remote (snd (syncHandler p c key w)) = remote w
         \<and> actions (snd (syncHandler p c key w)) = actions w
         \<and> events (snd (syncHandler p c key w)) = events w"
  using assms by (simp add: syncHandler_def HandleError_def)

theorem syncHandler_stream_not_found_witness:
  "SplitMetaNamespaceKey ''ns/gone'' = Inr (''ns'', ''gone'')
   \<and> streamsLister (fakeController [testStream] []) ''ns'' ''gone'' =
       Inl (StatusError StatusReasonNotFound
              (Sprintf (Lit ''%s %q not found'') [Lit ''stream'', Lit ''gone'']))
   \<and> fst (syncHandler testPkg (fakeController [testStream] []) ''ns/gone''
            (world0 emptyTracker)) = None
   \<and> remote (snd (syncHandler testPkg (fakeController [testStream] []) ''ns/gone''
            (world0 emptyTracker))) = emptyTracker
   \<and> actions (snd (syncHandler testPkg (fakeController [testStream] []) ''ns/gone''
            (world0 emptyTracker))) = []"
proof -
  have h1: "SplitMetaNamespaceKey ''ns/gone'' = Inr (''ns'', ''gone'')"
    by (simp add: SplitMetaNamespaceKey_def)
  have h2: "streamsLister (fakeController [testStream] []) ''ns'' ''gone'' =
       Inl (StatusError StatusReasonNotFound
              (Sprintf (Lit ''%s %q not found'') [Lit ''stream'', Lit ''gone'']))"
    by (simp add: fakeController_def lister_Get_def testStream_def)
  have h3: "IsNotFound (StatusError StatusReasonNotFound
              (Sprintf (Lit ''%s %q not found'') [Lit ''stream'', Lit ''gone'']))"
    by simp
  show ?thesis
    using h1 h2 syncHandler_stream_not_found [OF h1 h2 h3, of testPkg "world0 emptyTracker"]
    by (simp add: world0_def)
qed

text \<open>
  C4. When the Stream is in the cache and the Service of the derived name is in the
  cache but not controlled by the Stream, \<open>syncHandler\<close> records one event of type
  Warning with the reason \<open>ErrResourceExists\<close> and returns an error. Nothing else
  changes: no call is made on either clientset and the remote store is the one it
  was, whatever the clientsets would do, so the Service found is neither deleted nor
  adopted nor changed.
\<close>

theorem syncHandler_collision_untouched:
  assumes "SplitMetaNamespaceKey key = Inr (namespace, name)"
    and "streamsLister c namespace name = Inr stream"
    and "servicesLister c (Namespace stream) (StreamServiceName p name) = Inr service"
    and "\<not> IsControlledBy service stream"
  shows "syncHandler p c key w =
           (Some (Errorf (Sprintf (Lit MessageResourceExists) [Lit (Name service)]) []),
            w\<lparr>events := events w @
              [\<lparr>involved = stream, eventtype = EventTypeWarning, reason = ErrResourceExists,
                message = Sprintf (Lit MessageResourceExists) [Lit (Name service)]\<rparr>]\<rparr>)
         \<and> remote (snd (syncHandler p c key w)) = remote w
         \<and> actions (snd (syncHandler p c key w)) = actions w"
  using assms by (simp add: syncHandler_def Event_def Let_def)

theorem syncHandler_collision_untouched_witness:
  "\<not> IsControlledBy foreignService testStream
   \<and> fst (syncHandler testPkg (fakeController [testStream] [foreignService]) ''ns/s1''
            (world0 staleTracker))
       = Some (Errorf (Sprintf (Lit MessageResourceExists) [Lit ''s1-stream'']) [])
   \<and> map eventtype
        (events (snd (syncHandler testPkg
           (fakeController [testStream] [foreignService]) ''ns/s1'' (world0 staleTracker))))
       = [EventTypeWarning]
   \<and> remote (snd (syncHandler testPkg (fakeController [testStream] [foreignService]) ''ns/s1''
            (world0 staleTracker))) = staleTracker
   \<and> actions (snd (syncHandler testPkg (fakeController [testStream] [foreignService]) ''ns/s1''
            (world0 staleTracker))) = []"
  using foreign_test
    syncHandler_collision_untouched
      [OF SplitMetaNamespaceKey_test streamsLister_test servicesLister_foreign foreign_test,
        of "world0 staleTracker"]
  by (simp add: world0_def foreignService_def)

text \<open>
  C3. When the Stream is in the cache and the Service lister answers not-found for
  the derived name, the first remote call of \<open>syncHandler\<close> is the create of
  \<open>newService stream\<close> in the Stream's namespace. That Service has the derived
  name, the Stream's namespace, the label \<open>stream\<close> with the Stream's name, and one
  owner reference, a controller reference of kind Stream with the Stream's name and
  UID, so that it is controlled by the Stream. When the create fails, \<open>syncHandler\<close>
  returns that error after this one call.
\<close>

theorem syncHandler_creates_absent_service:
  assumes "SplitMetaNamespaceKey key = Inr (namespace, name)"
    and "streamsLister c namespace name = Inr stream"
    and "servicesLister c (Namespace stream) (StreamServiceName p name) = Inl err"
    and "IsNotFound err"
  shows "(\<exists>rest. actions (snd (syncHandler p c key w)) =
            actions w @ Services_Create (Namespace stream) (newService p stream) # rest)
         \<and> Name (newService p stream) = StreamServiceName p (Name stream)
         \<and> Namespace (newService p stream) = Namespace stream
         \<and> Labels (newService p stream) ''stream'' = Some (Name stream)
         \<and> (\<exists>ref. OwnerReferences (newService p stream) = [ref]
               \<and> Controller ref = Some True \<and> Kind ref = ''Stream''
               \<and> refName ref = Name stream \<and> refUID ref = UID stream)
         \<and> IsControlledBy (newService p stream) stream
         \<and> (\<forall>e r. kubeclientset c (Namespace stream) (newService p stream) (remote w) = (Inl e, r)
               \<longrightarrow> syncHandler p c key w =
                     (Some e, w\<lparr>remote := r,
                        actions := actions w @
                          [Services_Create (Namespace stream) (newService p stream)]\<rparr>))"
proof -
  have a: "\<exists>rest. actions (snd (syncHandler p c key w)) =
            actions w @ Services_Create (Namespace stream) (newService p stream) # rest"
    using assms
    by (simp add: sync_unfold split: sum.splits option.splits)
  have b: "\<forall>e r. kubeclientset c (Namespace stream) (newService p stream) (remote w) = (Inl e, r)
               \<longrightarrow> syncHandler p c key w =
                     (Some e, w\<lparr>remote := r,
                        actions := actions w @
                          [Services_Create (Namespace stream) (newService p stream)]\<rparr>)"
    using assms by (simp add: sync_unfold)
  have c: "\<exists>ref. OwnerReferences (newService p stream) = [ref]
               \<and> Controller ref = Some True \<and> Kind ref = ''Stream''
               \<and> refName ref = Name stream \<and> refUID ref = UID stream"
    by (simp add: newService_def NewControllerRef_def)
  show ?thesis
    using a b c newService_controlled [of p stream] by (simp add: newService_def)
qed

theorem syncHandler_creates_absent_service_witness:
  "servicesLister (fakeController [testStream] []) (Namespace testStream)
     (StreamServiceName testPkg ''s1'') =
     Inl (StatusError StatusReasonNotFound
            (Sprintf (Lit ''%s %q not found'') [Lit ''service'', Lit ''s1-stream'']))
   \<and> Name (newService testPkg testStream) = ''s1-stream''
   \<and> Labels (newService testPkg testStream) ''stream'' = Some ''s1''
   \<and> IsControlledBy (newService testPkg testStream) testStream
   \<and> syncHandler testPkg (fakeController [testStream] []) ''ns/s1'' (world0 staleTracker) =
       (Some (StatusError StatusReasonAlreadyExists
                (Sprintf (Lit ''%s %q already exists'') [Lit ''services'', Lit ''s1-stream''])),
        (world0 staleTracker)\<lparr>remote := staleTracker,
           actions := actions (world0 staleTracker) @
             [Services_Create (Namespace testStream) (newService testPkg testStream)]\<rparr>)"
proof -
  have nf: "IsNotFound (StatusError StatusReasonNotFound
            (Sprintf (Lit ''%s %q not found'') [Lit ''service'', Lit ''s1-stream'']))"
    by simp
  have n: "Name testStream = ''s1''" "StreamServiceName testPkg ''s1'' = ''s1-stream''"
    by (simp_all add: testStream_def testPkg_def)
  show ?thesis
    using servicesLister_empty [of "[testStream]"] create_refused_test [of "[testStream]" "[]"] n
      syncHandler_creates_absent_service
        [OF SplitMetaNamespaceKey_test streamsLister_test servicesLister_empty nf,
          of "world0 staleTracker"]
    by simp
qed

text \<open>
  C9. \<open>updateStreamStatus\<close> makes one remote call for every Stream and Service:
  the update, in the Stream's namespace, of a copy of the Stream it was given, no
  field changed. In \<open>syncHandler\<close> that Stream is the cached one: every update it
  sends carries the cached Stream, hence the cached status, and when the Service is
  in the cache and controlled by the Stream this update is the only remote call.
\<close>

theorem updateStreamStatus_sends_cached_stream:
  assumes "SplitMetaNamespaceKey key = Inr (namespace, name)"
    and "streamsLister c namespace name = Inr stream"
  shows "actions (snd (updateStreamStatus c stream service w)) =
           actions w @ [Streams_Update (Namespace stream) stream]
         \<and> remote (snd (updateStreamStatus c stream service w)) =
             snd (streamclientset c (Namespace stream) stream (remote w))
         \<and> (\<forall>ns sent. Streams_Update ns sent \<in> set (actions (snd (syncHandler p c key w)))
               \<longrightarrow> Streams_Update ns sent \<in> set (actions w)
                    \<or> (ns = Namespace stream \<and> sent = stream \<and> Status sent = Status stream))
         \<and> (\<forall>service. servicesLister c (Namespace stream) (StreamServiceName p name) = Inr service
               \<and> IsControlledBy service stream
               \<longrightarrow> actions (snd (syncHandler p c key w)) =
                     actions w @ [Streams_Update (Namespace stream) stream])"
proof -
  have a: "actions (snd (updateStreamStatus c stream service w)) =
           actions w @ [Streams_Update (Namespace stream) stream]
         \<and> remote (snd (updateStreamStatus c stream service w)) =
             snd (streamclientset c (Namespace stream) stream (remote w))"
    by (simp add: updateStreamStatus_eq)
  have b: "\<forall>ns sent. Streams_Update ns sent \<in> set (actions (snd (syncHandler p c key w)))
               \<longrightarrow> Streams_Update ns sent \<in> set (actions w)
                    \<or> (ns = Namespace stream \<and> sent = stream \<and> Status sent = Status stream)"
    using assms
    by (auto simp add: sync_unfold split: sum.splits option.splits if_splits)
  have c: "\<forall>service. servicesLister c (Namespace stream) (StreamServiceName p name) = Inr service
               \<and> IsControlledBy service stream
               \<longrightarrow> actions (snd (syncHandler p c key w)) =
                     actions w @ [Streams_Update (Namespace stream) stream]"
    using assms
    by (simp add: sync_unfold split: sum.splits option.splits)
  show ?thesis using a b c by blast
qed

theorem updateStreamStatus_sends_cached_stream_witness:
  "servicesLister (fakeController [testStream] [ownedService]) (Namespace testStream)
     (StreamServiceName testPkg ''s1'') = Inr ownedService
   \<and> IsControlledBy ownedService testStream
   \<and> actions (snd (syncHandler testPkg (fakeController [testStream] [ownedService]) ''ns/s1''
        (world0 syncedTracker))) = [Streams_Update (Namespace testStream) testStream]"
proof -
  have "\<forall>service. servicesLister (fakeController [testStream] [ownedService])
             (Namespace testStream) (StreamServiceName testPkg ''s1'') = Inr service
           \<and> IsControlledBy service testStream
         \<longrightarrow> actions (snd (syncHandler testPkg (fakeController [testStream] [ownedService])
                 ''ns/s1'' (world0 syncedTracker))) =
               actions (world0 syncedTracker) @ [Streams_Update (Namespace testStream) testStream]"
    using updateStreamStatus_sends_cached_stream
      [where service = ownedService and w = "world0 syncedTracker" and p = testPkg,
        OF SplitMetaNamespaceKey_test streamsLister_test [of "[ownedService]"]]
    by blast
  moreover have "actions (world0 syncedTracker) = []"
    by (simp add: world0_def)
  ultimately show ?thesis
    using servicesLister_owned [of "[testStream]"] controlled_test by simp
qed

text \<open>
  C2, as stated, fails. The write that persists the status is the full update of the
  Stream, not the update of the status subresource, and the store takes the object
  sent as it is. The cache holds \<open>ns/s1\<close> with spec \<open>v1\<close> while the store already
  holds it with spec \<open>v2\<close>; the sync succeeds and the stored spec is \<open>v1\<close>
  afterwards: the update changed the spec.
\<close>

theorem Update_replaces_stored_spec:
  "fst (syncHandler testPkg (fakeController [testStream] [newService testPkg testStream])
          ''ns/s1'' (world0 editedTracker)) = None
   \<and> map_option Spec (streams (remote (world0 editedTracker)) (''ns'', ''s1'')) = Some ''v2''
   \<and> map_option Spec
        (streams (remote (snd (syncHandler testPkg
            (fakeController [testStream] [newService testPkg testStream])
            ''ns/s1'' (world0 editedTracker)))) (''ns'', ''s1'')) = Some ''v1''"
  by (simp add: sync_unfold SplitMetaNamespaceKey_test test_defs editedTracker_def
      tracker_Update_def newService_def NewControllerRef_def IsControlledBy_def GetControllerOf_def)

text \<open>
  C2, amended. On the success path (the Stream and its Service are in the cache, the
  Service controlled by the Stream) the only remote call is the full update whose
  object is the cached Stream. On the store of the fake clientset, when the stored
  Stream agrees with the cached one in every field other than the status, the sync
  succeeds and the stored Stream afterwards differs from the one stored before in
  nothing but the status: its spec and its metadata are unchanged, and no Service
  is touched.
\<close>

theorem Update_keeps_agreeing_spec:
  assumes "SplitMetaNamespaceKey key = Inr (namespace, name)"
    and "streamsLister c namespace name = Inr stream"
    and "servicesLister c (Namespace stream) (StreamServiceName p name) = Inr service"
    and "IsControlledBy service stream"
    and "streamclientset c = tracker_Update"
    and "streams (remote w) (Namespace stream, Name stream) = Some stored"
    and "stored\<lparr>Status := Status stream\<rparr> = stream"
  shows "fst (syncHandler p c key w) = None
         \<and> actions (snd (syncHandler p c key w)) =
             actions w @ [Streams_Update (Namespace stream) stream]
         \<and> (\<exists>after. streams (remote (snd (syncHandler p c key w))) (Namespace stream, Name stream)
                        = Some after
               \<and> Spec after = Spec stored
               \<and> after\<lparr>Status := Status stored\<rparr> = stored)
         \<and> services (remote (snd (syncHandler p c key w))) = services (remote w)"
proof -
  have "stream\<lparr>Status := Status stored\<rparr> =
          (stored\<lparr>Status := Status stream\<rparr>)\<lparr>Status := Status stored\<rparr>"
    by (simp only: assms(7))
  then have agree: "stream\<lparr>Status := Status stored\<rparr> = stored"
    by simp
  have "Spec stream = Spec (stored\<lparr>Status := Status stream\<rparr>)"
    by (simp only: assms(7))
  then have sp: "Spec stream = Spec stored"
    by simp
  show ?thesis
    using assms(1-6) agree sp
    by (simp add: sync_unfold tracker_Update_def)
qed

theorem Update_keeps_agreeing_spec_witness:
  "streams (remote (world0 syncedTracker)) (Namespace testStream, Name testStream)
      = Some (testStream\<lparr>Status := ''pending''\<rparr>)
   \<and> fst (syncHandler testPkg (fakeController [testStream] [ownedService]) ''ns/s1''
        (world0 syncedTracker)) = None
   \<and> actions (snd (syncHandler testPkg (fakeController [testStream] [ownedService]) ''ns/s1''
        (world0 syncedTracker))) = [Streams_Update (Namespace testStream) testStream]
   \<and> (\<exists>after. streams (remote (snd (syncHandler testPkg
          (fakeController [testStream] [ownedService]) ''ns/s1'' (world0 syncedTracker))))
          (Namespace testStream, Name testStream) = Some after
        \<and> Spec after = Spec (testStream\<lparr>Status := ''pending''\<rparr>))
   \<and> Spec (testStream\<lparr>Status := ''pending''\<rparr>) = ''v1''"
proof -
  have cl: "streamclientset (fakeController [testStream] [ownedService]) = tracker_Update"
    by (simp add: fakeController_def)
  have st: "streams (remote (world0 syncedTracker)) (Namespace testStream, Name testStream)
      = Some (testStream\<lparr>Status := ''pending''\<rparr>)"
    by (simp add: world0_def syncedTracker_def testStream_def)
  have ag: "(testStream\<lparr>Status := ''pending''\<rparr>)\<lparr>Status := Status testStream\<rparr> = testStream"
    by (simp add: testStream_def)
  have sp: "Spec (testStream\<lparr>Status := ''pending''\<rparr>) = ''v1''"
    by (simp add: testStream_def)
  have ac: "actions (world0 syncedTracker) = []"
    by (simp add: world0_def)
  show ?thesis
    using st sp ac
      Update_keeps_agreeing_spec
        [OF SplitMetaNamespaceKey_test streamsLister_test servicesLister_owned controlled_test
          cl st ag]
    by auto
qed

text \<open>
  C8. The cache holds a Stream and the Service of the derived name, controlled by
  the Stream, and the remote store is the store of the fake clientset. Running
  \<open>syncHandler\<close> a second time on the state the first run left gives the same
  remote store as the first run alone and the same result; the two runs make two
  remote calls, both the update of the cached Stream, so no Service is created and
  the stored Services are the ones from before the first run. When the store holds
  the Stream, both runs return the nil error.
\<close>

theorem syncHandler_idempotent:
  assumes "SplitMetaNamespaceKey key = Inr (namespace, name)"
    and "streamsLister c namespace name = Inr stream"
    and "servicesLister c (Namespace stream) (StreamServiceName p name) = Inr service"
    and "IsControlledBy service stream"
    and "streamclientset c = tracker_Update"
  shows "(let once = syncHandler p c key w; twice = syncHandler p c key (snd once) in
          remote (snd twice) = remote (snd once)
          \<and> fst twice = fst once
          \<and> services (remote (snd twice)) = services (remote w)
          \<and> actions (snd twice) =
              actions w @ [Streams_Update (Namespace stream) stream,
                           Streams_Update (Namespace stream) stream]
          \<and> (\<forall>stored. streams (remote w) (Namespace stream, Name stream) = Some stored
                \<longrightarrow> fst once = None \<and> fst twice = None))"
  using assms
  by (simp add: sync_unfold tracker_Update_def split: option.splits)

theorem syncHandler_idempotent_witness:
  "streams (remote (world0 syncedTracker)) (Namespace testStream, Name testStream)
      = Some (testStream\<lparr>Status := ''pending''\<rparr>)
   \<and> remote (snd (syncHandler testPkg (fakeController [testStream] [ownedService]) ''ns/s1''
         (snd (syncHandler testPkg (fakeController [testStream] [ownedService]) ''ns/s1''
                 (world0 syncedTracker)))))
       = remote (snd (syncHandler testPkg (fakeController [testStream] [ownedService]) ''ns/s1''
                 (world0 syncedTracker)))
   \<and> fst (syncHandler testPkg (fakeController [testStream] [ownedService]) ''ns/s1''
            (world0 syncedTracker)) = None
   \<and> fst (syncHandler testPkg (fakeController [testStream] [ownedService]) ''ns/s1''
         (snd (syncHandler testPkg (fakeController [testStream] [ownedService]) ''ns/s1''
                 (world0 syncedTracker)))) = None"
proof -
  have cl: "streamclientset (fakeController [testStream] [ownedService]) = tracker_Update"
    by (simp add: fakeController_def)
  have st: "streams (remote (world0 syncedTracker)) (Namespace testStream, Name testStream)
      = Some (testStream\<lparr>Status := ''pending''\<rparr>)"
    by (simp add: world0_def syncedTracker_def testStream_def)
  note th = syncHandler_idempotent [OF SplitMetaNamespaceKey_test streamsLister_test
      servicesLister_owned controlled_test cl, of "world0 syncedTracker", unfolded Let_def]
  have same: "remote (snd (syncHandler testPkg (fakeController [testStream] [ownedService]) ''ns/s1''
         (snd (syncHandler testPkg (fakeController [testStream] [ownedService]) ''ns/s1''
                 (world0 syncedTracker)))))
       = remote (snd (syncHandler testPkg (fakeController [testStream] [ownedService]) ''ns/s1''
                 (world0 syncedTracker)))"
    using th by (rule conjunct1)
  have "\<forall>stored. streams (remote (world0 syncedTracker)) (Namespace testStream, Name testStream)
            = Some stored
          \<longrightarrow> fst (syncHandler testPkg (fakeController [testStream] [ownedService]) ''ns/s1''
                  (world0 syncedTracker)) = None
              \<and> fst (syncHandler testPkg (fakeController [testStream] [ownedService]) ''ns/s1''
                  (snd (syncHandler testPkg (fakeController [testStream] [ownedService]) ''ns/s1''
                     (world0 syncedTracker)))) = None"
    using th by (elim conjE)
  then have both: "fst (syncHandler testPkg (fakeController [testStream] [ownedService]) ''ns/s1''
                  (world0 syncedTracker)) = None
              \<and> fst (syncHandler testPkg (fakeController [testStream] [ownedService]) ''ns/s1''
                  (snd (syncHandler testPkg (fakeController [testStream] [ownedService]) ''ns/s1''
                     (world0 syncedTracker)))) = None"
    using st by (elim allE impE)
  show ?thesis
    using st same both by (intro conjI) (elim conjE, assumption)+
qed

subsection \<open>newService\<close>

text \<open>
  C10. The spec of \<open>newService stream\<close> is one constant for every Stream and every
  naming rule: one port, of number 80, and the type NodePort. The Services made for
  two Streams differ in name, namespace, labels and owner references only, and every
  create that \<open>syncHandler\<close> sends carries that spec.
\<close>

theorem newService_spec_constant:
  "SvcSpec (newService p stream) =
     \<lparr>Ports = [\<lparr>portName = [], Protocol = [], Port = 80, NodePort = 0\<rparr>],
      Selector = Map.empty, ClusterIP = [], Type = ''NodePort''\<rparr>
   \<and> (\<exists>port. Ports (SvcSpec (newService p stream)) = [port] \<and> Port port = 80)
   \<and> Type (SvcSpec (newService p stream)) = ''NodePort''
   \<and> SvcSpec (newService p stream) = SvcSpec (newService p' stream')
   \<and> newService p stream' =
       (newService p stream)
         \<lparr>Name := Name (newService p stream'),
          Namespace := Namespace (newService p stream'),
          Labels := Labels (newService p stream'),
          OwnerReferences := OwnerReferences (newService p stream')\<rparr>
   \<and> (\<forall>ns created.
         Services_Create ns created \<in> set (actions (snd (syncHandler p c key w)))
         \<longrightarrow> Services_Create ns created \<in> set (actions w)
              \<or> SvcSpec created = SvcSpec (newService p stream))"
proof -
  have a: "\<forall>ns created.
         Services_Create ns created \<in> set (actions (snd (syncHandler p c key w)))
         \<longrightarrow> Services_Create ns created \<in> set (actions w)
              \<or> SvcSpec created = SvcSpec (newService p stream)"
    by (auto simp add: sync_unfold newService_def split: sum.splits option.splits if_splits)
  show ?thesis using a by (simp add: newService_def)
qed

theorem newService_spec_constant_witness:
  "Services_Create ''ns'' (newService testPkg testStream)
     \<in> set (actions (snd (syncHandler testPkg (fakeController [testStream] []) ''ns/s1''
              (world0 emptyTracker))))
   \<and> Services_Create ''ns'' (newService testPkg testStream) \<notin> set (actions (world0 emptyTracker))
   \<and> SvcSpec (newService testPkg testStream) =
       \<lparr>Ports = [\<lparr>portName = [], Protocol = [], Port = 80, NodePort = 0\<rparr>],
        Selector = Map.empty, ClusterIP = [], Type = ''NodePort''\<rparr>"
proof -
  have a: "Services_Create ''ns'' (newService testPkg testStream)
     \<in> set (actions (snd (syncHandler testPkg (fakeController [testStream] []) ''ns/s1''
              (world0 emptyTracker))))"
    by (simp add: sync_unfold SplitMetaNamespaceKey_test test_defs tracker_Create_def
        tracker_Update_def newService_def NewControllerRef_def IsControlledBy_def
        GetControllerOf_def)
  have b: "Services_Create ''ns'' (newService testPkg testStream) \<notin> set (actions (world0 emptyTracker))"
    by (simp add: world0_def)
  show ?thesis
    using a b
      newService_spec_constant
        [of testPkg testStream testPkg testStream "fakeController [testStream] []" "''ns/s1''"
          "world0 emptyTracker"]
    by blast
qed

subsection \<open>The event router\<close>

text \<open>
  C7, as stated, fails: the add notification of the Stream \<open>ns/s1\<close> invokes
  \<open>AddRateLimited\<close> on the work queue with the key \<open>ns/s1\<close>, which is not what
  \<open>Add\<close> with that key does.
\<close>

theorem enqueueStream_not_Add:
  "streamInformer_handler (OnAdd (StreamObj testStream)) (world0 emptyTracker)
     = Some (AddRateLimited (KeyItem ''ns/s1'') (world0 emptyTracker))
   \<and> streamInformer_handler (OnAdd (StreamObj testStream)) (world0 emptyTracker)
     \<noteq> Some (Add (KeyItem ''ns/s1'') (world0 emptyTracker))"
  by (simp add: enqueueStream_def MetaNamespaceKeyFunc_def AddRateLimited_def Add_def test_defs)

text \<open>
  C7, amended. For every Stream, the add notification and every update notification
  (whatever the old object) compute the key from the Stream's own namespace and
  name, \<open>namespace/name\<close> or the name alone when the namespace is empty, and invoke
  \<open>AddRateLimited\<close> with it, the rate limited add of the work queue, without any
  condition.
\<close>

theorem streamInformer_enqueues_rate_limited:
  "streamInformer_handler (OnAdd (StreamObj stream)) w =
     Some (AddRateLimited
       (KeyItem (if Namespace stream = [] then Name stream
                 else Namespace stream @ ''/'' @ Name stream)) w)
   \<and> streamInformer_handler (OnUpdate old (StreamObj stream)) w =
     Some (AddRateLimited
       (KeyItem (if Namespace stream = [] then Name stream
                 else Namespace stream @ ''/'' @ Name stream)) w)
   \<and> workqueue (AddRateLimited item w) = workqueue w @ [QAddRateLimited item]"
  by (simp add: enqueueStream_def MetaNamespaceKeyFunc_def AddRateLimited_def)

theorem streamInformer_enqueues_rate_limited_witness:
  "streamInformer_handler
     (OnUpdate (StreamObj (testStream\<lparr>Spec := ''v0''\<rparr>)) (StreamObj testStream))
     (world0 emptyTracker) = Some (AddRateLimited (KeyItem ''ns/s1'') (world0 emptyTracker))"
  using streamInformer_enqueues_rate_limited
    [of testStream "world0 emptyTracker" "StreamObj (testStream\<lparr>Spec := ''v0''\<rparr>)"]
  by (simp add: testStream_def)

lemma GetControllerOf_asObject:
  "GetControllerOf \<lparr>Name = a, Namespace = b, UID = u, ResourceVersion = rv, Labels = l,
      OwnerReferences = OwnerReferences svc\<rparr> = GetControllerOf svc"
  by (simp add: GetControllerOf_def)

lemma handleObject_Service:
  "handleObject c (ServiceObj svc) w =
     (case GetControllerOf svc of
        None \<Rightarrow> w
      | Some ownerRef \<Rightarrow>
          if Kind ownerRef = ''Stream''
          then (case streamsLister c (Namespace svc) (refName ownerRef) of
                  Inl err \<Rightarrow> w
                | Inr stream \<Rightarrow> enqueueStream (StreamObj stream) w)
          else w)"
  by (simp add: handleObject_def handleOwner_def GetControllerOf_asObject split: option.splits)

lemma handleObject_tombstone:
  "handleObject c (DeletedFinalStateUnknown k (ServiceObj svc)) w =
     handleObject c (ServiceObj svc) w"
  by (simp add: handleObject_def)

text \<open>
  C6, as stated, fails for an update notification that carries the resource version
  of the old object. The Service has a controller reference of kind Stream to
  \<open>s1\<close>, and the Stream \<open>ns/s1\<close> is in the cache, yet the notification leaves
  the work queue empty: the update function returns before \<open>handleObject\<close>.
\<close>

theorem service_update_same_version_dropped:
  "map_option Kind (GetControllerOf ownedService) = Some ''Stream''
   \<and> map_option refName (GetControllerOf ownedService) = Some ''s1''
   \<and> streamsLister (fakeController [testStream] [ownedService]) (Namespace ownedService) ''s1''
       = Inr testStream
   \<and> serviceInformer_handler (fakeController [testStream] [ownedService])
        (OnUpdate (ServiceObj ownedService) (ServiceObj ownedService)) (world0 emptyTracker)
       = Some (world0 emptyTracker)
   \<and> workqueue (world0 emptyTracker) = []"
  by (simp add: ownedService_def newService_def NewControllerRef_def GetControllerOf_def test_defs)

text \<open>
  C6, amended. Take an add or a delete notification of a Service, a delete
  notification of a tombstone that holds a Service, or an update notification whose
  new Service has another resource version than the old one. The router changes
  nothing when the Service has no controller reference, when the kind of that
  reference is not Stream, or when the Stream lister fails for the Service's
  namespace and the reference's name. Otherwise it invokes \<open>AddRateLimited\<close> once,
  with the key of the Stream the lister found; that key is not the Service's own
  key when the Stream has the Service's namespace and another name. An update
  notification with an unchanged resource version changes nothing.
\<close>

theorem serviceInformer_routing:
  assumes "n = OnAdd (ServiceObj svc) \<or> n = OnDelete (ServiceObj svc)
           \<or> n = OnDelete (DeletedFinalStateUnknown k (ServiceObj svc))
           \<or> (n = OnUpdate (ServiceObj old) (ServiceObj svc)
               \<and> ResourceVersion svc \<noteq> ResourceVersion old)"
  shows "(GetControllerOf svc = None \<longrightarrow> serviceInformer_handler c n w = Some w)
         \<and> (\<forall>ref. GetControllerOf svc = Some ref \<and> Kind ref \<noteq> ''Stream''
               \<longrightarrow> serviceInformer_handler c n w = Some w)
         \<and> (\<forall>ref err. GetControllerOf svc = Some ref
                 \<and> streamsLister c (Namespace svc) (refName ref) = Inl err
               \<longrightarrow> serviceInformer_handler c n w = Some w)
         \<and> (\<forall>ref stream. GetControllerOf svc = Some ref \<and> Kind ref = ''Stream''
                 \<and> streamsLister c (Namespace svc) (refName ref) = Inr stream
               \<longrightarrow> (\<exists>key. MetaNamespaceKeyFunc (StreamObj stream) = Inr key
                      \<and> key = (if Namespace stream = [] then Name stream
                               else Namespace stream @ ''/'' @ Name stream)
                      \<and> serviceInformer_handler c n w =
                          Some (w\<lparr>workqueue := workqueue w @ [QAddRateLimited (KeyItem key)]\<rparr>)
                      \<and> (Namespace stream = Namespace svc \<and> Name stream \<noteq> Name svc
                           \<longrightarrow> MetaNamespaceKeyFunc (ServiceObj svc) \<noteq> Inr key)))
         \<and> (ResourceVersion svc = ResourceVersion old
               \<longrightarrow> serviceInformer_handler c (OnUpdate (ServiceObj old) (ServiceObj svc)) w = Some w)"
proof -
  have h: "serviceInformer_handler c n w = Some (handleObject c (ServiceObj svc) w)"
    using assms by (auto simp add: handleObject_tombstone)
  show ?thesis
    unfolding h
    by (auto simp add: handleObject_Service enqueueStream_def MetaNamespaceKeyFunc_def
        AddRateLimited_def)
qed

theorem serviceInformer_routing_witness:
  "GetControllerOf ownedService = Some (NewControllerRef testStream
       \<lparr>gvkGroup = ''spike.local'', gvkVersion = ''v1alpha1'', gvkKind = ''Stream''\<rparr>)
   \<and> streamsLister (fakeController [testStream] []) (Namespace ownedService) ''s1'' = Inr testStream
   \<and> serviceInformer_handler (fakeController [testStream] [])
        (OnDelete (DeletedFinalStateUnknown ''ns/s1-stream'' (ServiceObj ownedService)))
        (world0 emptyTracker) =
       Some ((world0 emptyTracker)\<lparr>workqueue := [QAddRateLimited (KeyItem ''ns/s1'')]\<rparr>)"
proof -
  have g: "GetControllerOf ownedService = Some (NewControllerRef testStream
       \<lparr>gvkGroup = ''spike.local'', gvkVersion = ''v1alpha1'', gvkKind = ''Stream''\<rparr>)"
    by (simp add: ownedService_def newService_def GetControllerOf_def NewControllerRef_def
        testPkg_def)
  have k: "Kind (NewControllerRef testStream
       \<lparr>gvkGroup = ''spike.local'', gvkVersion = ''v1alpha1'', gvkKind = ''Stream''\<rparr>) = ''Stream''"
    by (simp add: NewControllerRef_def)
  have l: "streamsLister (fakeController [testStream] []) (Namespace ownedService)
             (refName (NewControllerRef testStream
       \<lparr>gvkGroup = ''spike.local'', gvkVersion = ''v1alpha1'', gvkKind = ''Stream''\<rparr>))
             = Inr testStream"
    by (simp add: fakeController_def lister_Get_def ownedService_def newService_def testStream_def
        NewControllerRef_def)
  have r: "refName (NewControllerRef testStream
       \<lparr>gvkGroup = ''spike.local'', gvkVersion = ''v1alpha1'', gvkKind = ''Stream''\<rparr>) = ''s1''"
    by (simp add: NewControllerRef_def testStream_def)
  have d: "OnDelete (DeletedFinalStateUnknown ''ns/s1-stream'' (ServiceObj ownedService))
             = OnAdd (ServiceObj ownedService)
           \<or> OnDelete (DeletedFinalStateUnknown ''ns/s1-stream'' (ServiceObj ownedService))
             = OnDelete (ServiceObj ownedService)
           \<or> OnDelete (DeletedFinalStateUnknown ''ns/s1-stream'' (ServiceObj ownedService))
             = OnDelete (DeletedFinalStateUnknown ''ns/s1-stream'' (ServiceObj ownedService))
           \<or> (OnDelete (DeletedFinalStateUnknown ''ns/s1-stream'' (ServiceObj ownedService))
             = OnUpdate (ServiceObj ownedService) (ServiceObj ownedService)
               \<and> ResourceVersion ownedService \<noteq> ResourceVersion ownedService)"
    by simp
  note th = serviceInformer_routing [where c = "fakeController [testStream] []"
      and w = "world0 emptyTracker", OF d]
  have "\<exists>key. MetaNamespaceKeyFunc (StreamObj testStream) = Inr key
          \<and> key = (if Namespace testStream = [] then Name testStream
                   else Namespace testStream @ ''/'' @ Name testStream)
          \<and> serviceInformer_handler (fakeController [testStream] [])
               (OnDelete (DeletedFinalStateUnknown ''ns/s1-stream'' (ServiceObj ownedService)))
               (world0 emptyTracker) =
              Some ((world0 emptyTracker)\<lparr>workqueue := workqueue (world0 emptyTracker) @
                      [QAddRateLimited (KeyItem key)]\<rparr>)"
    using th g k l by blast
  then have "serviceInformer_handler (fakeController [testStream] [])
               (OnDelete (DeletedFinalStateUnknown ''ns/s1-stream'' (ServiceObj ownedService)))
               (world0 emptyTracker) =
              Some ((world0 emptyTracker)\<lparr>workqueue := [QAddRateLimited (KeyItem ''ns/s1'')]\<rparr>)"
    by (auto simp add: testStream_def world0_def)
  then show ?thesis
    using g l r by simp
qed

end
